theory Spec2Isabelle
  imports Main
begin

text \<open>
  A model of the annotation client's two store modules (direct-linked state, session
  and profile state) and of the notebook modal component, with the properties their
  description states.  The side-by-side fitting of the HTML integration is not modelled:
  the repository files this development is drawn from hold its test-suite only, not the
  integration itself.
\<close>

section \<open>JavaScript values used by the store modules\<close>

text \<open>
  The settings object read by both store modules is typed by JSDoc
  (\<^verbatim>\<open>SidebarSettings\<close>); each property read here is a string that may be missing
  (\<^verbatim>\<open>undefined\<close>) or \<^verbatim>\<open>null\<close>.  The two absent values are kept apart because
  JavaScript does: \<^verbatim>\<open>||\<close> tests truthiness, \<^verbatim>\<open>??\<close> tests for
  \<^verbatim>\<open>null\<close>/\<^verbatim>\<open>undefined\<close> only.
\<close>

datatype 'a optional = Undefined | Null | Present 'a

text \<open>Values stored in the feature and preference maps of a profile.  Numbers are
  restricted to integers and \<^verbatim>\<open>NaN\<close>; \<open>JObject\<close> stands for any object, array or
  function.\<close>

datatype jsval =
    JUndefined
  | JNull
  | JBool bool
  | JNum int
  | JNaN
  | JStr string
  | JObject




text \<open>\<^verbatim>\<open>v || null\<close> for a string-or-absent \<open>v\<close>, with result type
  \<^verbatim>\<open>string|null\<close> (\<open>None\<close> is \<^verbatim>\<open>null\<close>): the empty string is falsy.\<close>

definition or_null :: "string optional \<Rightarrow> string option" where
  "or_null v = (case v of
      Present s \<Rightarrow> (if s \<noteq> [] then Some s else None)
    | Undefined \<Rightarrow> None
    | Null \<Rightarrow> None)"

text \<open>\<^verbatim>\<open>v ?? d\<close>: the default is taken only for \<^verbatim>\<open>null\<close> and \<^verbatim>\<open>undefined\<close>.\<close>

definition nullish_or :: "'a optional \<Rightarrow> 'a \<Rightarrow> 'a" where
  "nullish_or v d = (case v of Present x \<Rightarrow> x | Undefined \<Rightarrow> d | Null \<Rightarrow> d)"

record SidebarSettings =
  group :: "string optional"
  annotations :: "string optional"
  authDomain :: "string optional"


section \<open>The direct-linked store module (direct-linked.js)\<close>

text \<open>The module's state: two IDs of type \<^verbatim>\<open>string|null\<close> and a flag.  The
  parameter of \<^verbatim>\<open>initialState\<close> is typed as a settings object; unlike the session
  module, this one reads its properties without guarding against a missing object.\<close>

record directLinked_State =
  directLinkedGroupId :: "string option"
  directLinkedAnnotationId :: "string option"
  directLinkedGroupFetchFailed :: bool

definition directLinked_initialState :: "SidebarSettings \<Rightarrow> directLinked_State" where
  "directLinked_initialState settings =
     \<lparr> directLinkedGroupId = or_null (group settings),
       directLinkedAnnotationId = or_null (annotations settings),
       directLinkedGroupFetchFailed = False \<rparr>"

text \<open>An action is its type tag with its payload, as \<^verbatim>\<open>makeAction\<close> builds it.\<close>

datatype directLinked_Action =
    UPDATE_DIRECT_LINKED_GROUP_FETCH_FAILED bool
  | UPDATE_DIRECT_LINKED_GROUP_ID "string option"
  | UPDATE_DIRECT_LINKED_ANNOTATION_ID "string option"
  | CLEAR_DIRECT_LINKED_IDS
  | CLEAR_SELECTION

text \<open>A reducer returns an object holding only the properties it changes; a field that
  is \<open>None\<close> here is a key the returned object does not have.\<close>

record directLinked_Changes =
  groupId_change :: "string option option"
  annotationId_change :: "string option option"
  groupFetchFailed_change :: "bool option"

definition directLinked_no_change :: directLinked_Changes where
  "directLinked_no_change =
     \<lparr> groupId_change = None, annotationId_change = None, groupFetchFailed_change = None \<rparr>"

fun directLinked_reducers :: "directLinked_State \<Rightarrow> directLinked_Action \<Rightarrow> directLinked_Changes" where
  "directLinked_reducers state (UPDATE_DIRECT_LINKED_GROUP_FETCH_FAILED failed) =
     directLinked_no_change \<lparr> groupFetchFailed_change := Some failed \<rparr>"
| "directLinked_reducers state (UPDATE_DIRECT_LINKED_GROUP_ID groupId) =
     directLinked_no_change \<lparr> groupId_change := Some groupId \<rparr>"
| "directLinked_reducers state (UPDATE_DIRECT_LINKED_ANNOTATION_ID annId) =
     directLinked_no_change \<lparr> annotationId_change := Some annId \<rparr>"
| "directLinked_reducers state CLEAR_DIRECT_LINKED_IDS =
     directLinked_no_change \<lparr> annotationId_change := Some None, groupId_change := Some None \<rparr>"
| "directLinked_reducers state CLEAR_SELECTION =
     \<lparr> groupId_change = Some None, annotationId_change = Some None,
       groupFetchFailed_change = Some False \<rparr>"

text \<open>Modelled from the spec: \<^verbatim>\<open>create-store.js\<close> (\<^verbatim>\<open>createStoreModule\<close>,
  \<^verbatim>\<open>makeAction\<close>) is not among the sources.  The spec calls it a Redux-like layer of
  store modules, reducers, selectors and action creators; the reducers above return
  partial states, so the module's reducer is taken to merge the returned properties over
  the previous state (\<^verbatim>\<open>{...state, ...changes}\<close>), and \<^verbatim>\<open>makeAction\<close> to build the
  action from its type and payload.\<close>

definition directLinked_merge :: "directLinked_State \<Rightarrow> directLinked_Changes \<Rightarrow> directLinked_State" where
  "directLinked_merge state changes =
     \<lparr> directLinkedGroupId =
         (case groupId_change changes of None \<Rightarrow> directLinkedGroupId state | Some v \<Rightarrow> v),
       directLinkedAnnotationId =
         (case annotationId_change changes of None \<Rightarrow> directLinkedAnnotationId state | Some v \<Rightarrow> v),
       directLinkedGroupFetchFailed =
         (case groupFetchFailed_change changes of
            None \<Rightarrow> directLinkedGroupFetchFailed state | Some v \<Rightarrow> v) \<rparr>"

definition directLinked_reduce :: "directLinked_State \<Rightarrow> directLinked_Action \<Rightarrow> directLinked_State" where
  "directLinked_reduce state action = directLinked_merge state (directLinked_reducers state action)"

text \<open>Dispatching a sequence of actions, oldest first.\<close>

fun directLinked_dispatch_all :: "directLinked_State \<Rightarrow> directLinked_Action list \<Rightarrow> directLinked_State" where
  "directLinked_dispatch_all state [] = state"
| "directLinked_dispatch_all state (a # as) = directLinked_dispatch_all (directLinked_reduce state a) as"

subsection \<open>Action creators\<close>

definition setDirectLinkedGroupId :: "string option \<Rightarrow> directLinked_Action" where
  "setDirectLinkedGroupId groupId = UPDATE_DIRECT_LINKED_GROUP_ID groupId"

definition setDirectLinkedAnnotationId :: "string option \<Rightarrow> directLinked_Action" where
  "setDirectLinkedAnnotationId annId = UPDATE_DIRECT_LINKED_ANNOTATION_ID annId"

definition setDirectLinkedGroupFetchFailed :: directLinked_Action where
  "setDirectLinkedGroupFetchFailed = UPDATE_DIRECT_LINKED_GROUP_FETCH_FAILED True"

definition clearDirectLinkedGroupFetchFailed :: directLinked_Action where
  "clearDirectLinkedGroupFetchFailed = UPDATE_DIRECT_LINKED_GROUP_FETCH_FAILED False"

definition clearDirectLinkedIds :: directLinked_Action where
  "clearDirectLinkedIds = CLEAR_DIRECT_LINKED_IDS"

subsection \<open>Selectors\<close>

definition directLinkedAnnotationId_sel :: "directLinked_State \<Rightarrow> string option" where
  "directLinkedAnnotationId_sel state = directLinkedAnnotationId state"

definition directLinkedGroupId_sel :: "directLinked_State \<Rightarrow> string option" where
  "directLinkedGroupId_sel state = directLinkedGroupId state"

definition directLinkedGroupFetchFailed_sel :: "directLinked_State \<Rightarrow> bool" where
  "directLinkedGroupFetchFailed_sel state = directLinkedGroupFetchFailed state"


section \<open>The session store module (session.js)\<close>

text \<open>A profile, as the dummy \<^verbatim>\<open>initialProfile\<close> shows it: a map of feature flags, a
  map of preferences, and the user ID or \<^verbatim>\<open>null\<close>.\<close>

record Profile =
  features :: "string \<rightharpoonup> jsval"
  preferences :: "string \<rightharpoonup> jsval"
  userid :: "string option"

text \<open>
  \<^verbatim>\<open>hasFetchedProfile\<close> compares object identities, so profile objects live in an
  explicit heap and the state holds a reference.  The heap is the list of the profile
  objects created so far; a reference is an index into it, and an object literal
  allocates the next index.  The nested feature and preference maps are held by value.
\<close>

type_synonym profile_ref = nat
type_synonym profile_heap = "Profile list"

definition allocate :: "Profile \<Rightarrow> profile_heap \<Rightarrow> profile_ref \<times> profile_heap" where
  "allocate obj heap = (length heap, heap @ [obj])"

definition deref :: "profile_heap \<Rightarrow> profile_ref \<Rightarrow> Profile" where
  "deref heap r = heap ! r"

text \<open>Evaluating the module body creates the one \<^verbatim>\<open>initialProfile\<close> object: the first
  object of the heap.\<close>

definition initialProfile_object :: Profile where
  "initialProfile_object = \<lparr> features = Map.empty, preferences = Map.empty, userid = None \<rparr>"

definition initialProfile :: profile_ref where
  "initialProfile = fst (allocate initialProfile_object [])"

definition module_heap :: profile_heap where
  "module_heap = snd (allocate initialProfile_object [])"

record session_State =
  defaultAuthority :: string
  profile :: profile_ref

text \<open>\<^verbatim>\<open>settings?.authDomain ?? ''\<close>: the settings object itself may be missing.\<close>

definition session_initialState :: "SidebarSettings optional \<Rightarrow> session_State" where
  "session_initialState settings =
     \<lparr> defaultAuthority =
         nullish_or (case settings of Present s \<Rightarrow> authDomain s | Undefined \<Rightarrow> Undefined | Null \<Rightarrow> Undefined) [],
       profile = initialProfile \<rparr>"

datatype session_Action = UPDATE_PROFILE profile_ref

record session_Changes =
  defaultAuthority_change :: "string option"
  profile_change :: "profile_ref option"

text \<open>\<^verbatim>\<open>{ profile: { ...action.profile } }\<close>: the spread copies the properties of the
  action's profile into a newly allocated object.\<close>

fun session_reducers ::
  "profile_heap \<Rightarrow> session_State \<Rightarrow> session_Action \<Rightarrow> session_Changes \<times> profile_heap" where
  "session_reducers heap state (UPDATE_PROFILE p) =
     (let (copy, heap') = allocate (deref heap p) heap
      in (\<lparr> defaultAuthority_change = None, profile_change = Some copy \<rparr>, heap'))"

text \<open>Modelled from the spec: the merge of \<^verbatim>\<open>create-store.js\<close>, as for the direct-linked
  module.\<close>

definition session_merge :: "session_State \<Rightarrow> session_Changes \<Rightarrow> session_State" where
  "session_merge state changes =
     \<lparr> defaultAuthority =
         (case defaultAuthority_change changes of None \<Rightarrow> defaultAuthority state | Some v \<Rightarrow> v),
       profile = (case profile_change changes of None \<Rightarrow> profile state | Some v \<Rightarrow> v) \<rparr>"

definition session_reduce ::
  "profile_heap \<Rightarrow> session_State \<Rightarrow> session_Action \<Rightarrow> session_State \<times> profile_heap" where
  "session_reduce heap state action =
     (let (changes, heap') = session_reducers heap state action
      in (session_merge state changes, heap'))"

definition updateProfile :: "profile_ref \<Rightarrow> session_Action" where
  "updateProfile p = UPDATE_PROFILE p"

subsection \<open>Selectors\<close>

definition defaultAuthority_sel :: "session_State \<Rightarrow> string" where
  "defaultAuthority_sel state = defaultAuthority state"

definition isLoggedIn :: "profile_heap \<Rightarrow> session_State \<Rightarrow> bool" where
  "isLoggedIn heap state = (userid (deref heap (profile state)) \<noteq> None)"


definition hasFetchedProfile :: "session_State \<Rightarrow> bool" where
  "hasFetchedProfile state = (profile state \<noteq> initialProfile)"

definition profile_sel :: "session_State \<Rightarrow> profile_ref" where
  "profile_sel state = profile state"


section \<open>The notebook modal (NotebookModal component)\<close>

text \<open>
  The component is written with hooks, and the hooks library does not run everything at
  once.  A call of the \<^verbatim>\<open>useState\<close> setter writes the new value and queues a
  re-render; the re-render happens later; the \<^verbatim>\<open>useEffect\<close> callbacks a render
  schedules run later still, after the page has been painted.  Events can arrive in
  between, so the queued render and the pending effects are part of the state, and
  rendering and running the effects are steps of their own.

  The component and the part of the page it touches, as one state:
  \<^item> \<open>isHidden\<close> is the \<^verbatim>\<open>useState\<close> value as last written, and
    \<open>rendered_isHidden\<close> the value the last render read: it decides the
    \<^verbatim>\<open>is-hidden\<close> class of the rendered element, and it is the value the effect
    callback of that render closes over;
  \<^item> \<open>originalDocumentOverflowStyle\<close> and \<open>emitterRef\<close> are the \<^verbatim>\<open>useRef\<close> cells
    (\<open>emitterRef\<close> is true once it holds an emitter);
  \<^item> \<open>body_overflow\<close> is \<^verbatim>\<open>document.body.style.overflow\<close>;
  \<^item> \<open>subscribed\<close> tells whether the component's emitter listens on the event bus,
    and \<open>published\<close> lists the events it published, oldest first;
  \<^item> \<open>mounted\<close> is false once the component has been destroyed;
  \<^item> \<open>render_queued\<close> tells whether a re-render is waiting, \<open>pending_effects\<close> lists
    the effects scheduled by the last render that have not run yet, and \<open>cleanups\<close>
    the effects that have run and returned a cleanup function.

  The component's props (event bus, config) stay the same for its whole life, and
  nothing but the component writes the body's overflow style.
\<close>

datatype NotebookModal_effect = StoreOverflow | ApplyOverflow | Subscribe

record NotebookModal_state =
  isHidden :: bool
  rendered_isHidden :: bool
  originalDocumentOverflowStyle :: string
  emitterRef :: bool
  body_overflow :: string
  subscribed :: bool
  published :: "string list"
  mounted :: bool
  render_queued :: bool
  pending_effects :: "NotebookModal_effect list"
  cleanups :: "NotebookModal_effect list"

text \<open>The first render on a page whose body has overflow style \<open>overflow\<close>:
  \<^verbatim>\<open>useState(true)\<close>, \<^verbatim>\<open>useRef('')\<close>, \<^verbatim>\<open>useRef(null)\<close>, and the three effects
  scheduled in the order they are declared.  None of them has run yet.\<close>

definition first_render :: "string \<Rightarrow> NotebookModal_state" where
  "first_render overflow =
     \<lparr> isHidden = True, rendered_isHidden = True, originalDocumentOverflowStyle = [],
       emitterRef = False, body_overflow = overflow, subscribed = False, published = [],
       mounted = True, render_queued = False,
       pending_effects = [StoreOverflow, ApplyOverflow, Subscribe], cleanups = [] \<rparr>"

text \<open>First effect (dependencies \<^verbatim>\<open>[]\<close>) and its cleanup.\<close>

definition effect_store_overflow :: "NotebookModal_state \<Rightarrow> NotebookModal_state" where
  "effect_store_overflow s =
     s \<lparr> originalDocumentOverflowStyle := body_overflow s, cleanups := cleanups s @ [StoreOverflow] \<rparr>"

definition cleanup_store_overflow :: "NotebookModal_state \<Rightarrow> NotebookModal_state" where
  "cleanup_store_overflow s = s \<lparr> body_overflow := originalDocumentOverflowStyle s \<rparr>"

text \<open>Second effect (dependencies \<^verbatim>\<open>[isHidden]\<close>); it returns no cleanup.  The
  \<^verbatim>\<open>isHidden\<close> it tests is the one of the render that scheduled it.\<close>

definition effect_apply_overflow :: "NotebookModal_state \<Rightarrow> NotebookModal_state" where
  "effect_apply_overflow s =
     (if rendered_isHidden s then s \<lparr> body_overflow := originalDocumentOverflowStyle s \<rparr>
      else s \<lparr> body_overflow := ''hidden'' \<rparr>)"

text \<open>Third effect (dependencies \<^verbatim>\<open>[eventBus]\<close>) and its cleanup.\<close>

definition effect_subscribe :: "NotebookModal_state \<Rightarrow> NotebookModal_state" where
  "effect_subscribe s =
     s \<lparr> subscribed := True, emitterRef := True, cleanups := cleanups s @ [Subscribe] \<rparr>"

definition cleanup_subscribe :: "NotebookModal_state \<Rightarrow> NotebookModal_state" where
  "cleanup_subscribe s = s \<lparr> subscribed := False \<rparr>"

fun run_effect :: "NotebookModal_effect \<Rightarrow> NotebookModal_state \<Rightarrow> NotebookModal_state" where
  "run_effect StoreOverflow s = effect_store_overflow s"
| "run_effect ApplyOverflow s = effect_apply_overflow s"
| "run_effect Subscribe s = effect_subscribe s"

fun run_cleanup :: "NotebookModal_effect \<Rightarrow> NotebookModal_state \<Rightarrow> NotebookModal_state" where
  "run_cleanup StoreOverflow s = cleanup_store_overflow s"
| "run_cleanup ApplyOverflow s = s"
| "run_cleanup Subscribe s = cleanup_subscribe s"

text \<open>Running the pending effects, oldest first.\<close>

definition flush_effects :: "NotebookModal_state \<Rightarrow> NotebookModal_state" where
  "flush_effects s = (fold run_effect (pending_effects s) s) \<lparr> pending_effects := [] \<rparr>"

text \<open>A re-render.  The hooks library first runs the effects still pending from the
  render before; the new render reads the state as last written, and schedules the
  second effect when its dependency \<^verbatim>\<open>isHidden\<close> differs from the one of the render
  before.  The dependencies of the other two effects never change.\<close>

definition rerender :: "NotebookModal_state \<Rightarrow> NotebookModal_state" where
  "rerender s =
     (let s1 = flush_effects s
      in s1 \<lparr> rendered_isHidden := isHidden s1,
              render_queued := False,
              pending_effects := (if rendered_isHidden s1 \<noteq> isHidden s1 then [ApplyOverflow] else []) \<rparr>)"

text \<open>\<^verbatim>\<open>setIsHidden(v)\<close>: a changed value is written and a re-render queued; an
  unchanged value does nothing.\<close>

definition setIsHidden :: "bool \<Rightarrow> NotebookModal_state \<Rightarrow> NotebookModal_state" where
  "setIsHidden v s = (if isHidden s = v then s else s \<lparr> isHidden := v, render_queued := True \<rparr>)"

text \<open>The callback subscribed to \<^verbatim>\<open>'openNotebook'\<close>.\<close>

definition on_openNotebook :: "NotebookModal_state \<Rightarrow> NotebookModal_state" where
  "on_openNotebook s = setIsHidden False s"

text \<open>\<^verbatim>\<open>onClose\<close>: \<^verbatim>\<open>setIsHidden(true)\<close>, then
  \<^verbatim>\<open>emitterRef.current?.publish('closeNotebook')\<close>, which publishes only when the ref
  holds an emitter.\<close>

definition onClose :: "NotebookModal_state \<Rightarrow> NotebookModal_state" where
  "onClose s =
     (let s1 = setIsHidden True s
      in if emitterRef s1 then s1 \<lparr> published := published s1 @ [''closeNotebook''] \<rparr> else s1)"

text \<open>Destroying the component runs the cleanups of the effects that have run, oldest
  first; a queued render and effects that have not run are dropped.\<close>

definition destroy :: "NotebookModal_state \<Rightarrow> NotebookModal_state" where
  "destroy s =
     (fold run_cleanup (cleanups s) s)
       \<lparr> mounted := False, render_queued := False, pending_effects := [], cleanups := [] \<rparr>"

datatype NotebookModal_event =
  OpenNotebookEvent | CloseButtonClick | Render | RunEffects | Destroy

text \<open>One step of the event loop.  A destroyed component has no button, no
  subscription, and is neither rendered nor are its effects run; the bus delivers
  \<^verbatim>\<open>'openNotebook'\<close> only to a live subscription; the close button is part of every
  render.\<close>

fun NotebookModal_step :: "NotebookModal_state \<Rightarrow> NotebookModal_event \<Rightarrow> NotebookModal_state" where
  "NotebookModal_step s OpenNotebookEvent =
     (if mounted s \<and> subscribed s then on_openNotebook s else s)"
| "NotebookModal_step s CloseButtonClick = (if mounted s then onClose s else s)"
| "NotebookModal_step s Render = (if mounted s \<and> render_queued s then rerender s else s)"
| "NotebookModal_step s RunEffects = (if mounted s then flush_effects s else s)"
| "NotebookModal_step s Destroy = (if mounted s then destroy s else s)"

fun NotebookModal_run :: "NotebookModal_state \<Rightarrow> NotebookModal_event list \<Rightarrow> NotebookModal_state" where
  "NotebookModal_run s [] = s"
| "NotebookModal_run s (e # es) = NotebookModal_run (NotebookModal_step s e) es"

text \<open>The modal is visible when the component is on the page and its last render did
  not give it the \<^verbatim>\<open>is-hidden\<close> class.\<close>

definition visible :: "NotebookModal_state \<Rightarrow> bool" where
  "visible s = (mounted s \<and> \<not> rendered_isHidden s)"

text \<open>What holds of the modal state after any sequence of events, for a page whose
  body overflow style was \<open>orig\<close> at the first render; used in the proofs below.  A
  mounted component is in one of three phases: the effects of the first render are
  pending; no effect is pending; the second effect is pending after a render that
  changed \<open>isHidden\<close>.\<close>

definition modal_inv :: "string \<Rightarrow> NotebookModal_state \<Rightarrow> bool" where
  "modal_inv orig s \<longleftrightarrow>
     (if \<not> mounted s then body_overflow s = orig
      else if pending_effects s = [StoreOverflow, ApplyOverflow, Subscribe]
      then isHidden s \<and> rendered_isHidden s \<and> \<not> render_queued s \<and> body_overflow s = orig
        \<and> cleanups s = [] \<and> \<not> subscribed s \<and> \<not> emitterRef s \<and> published s = []
      else originalDocumentOverflowStyle s = orig \<and> subscribed s \<and> emitterRef s
        \<and> cleanups s = [StoreOverflow, Subscribe]
        \<and> (render_queued s \<or> rendered_isHidden s = isHidden s)
        \<and> (if pending_effects s = []
           then body_overflow s = (if rendered_isHidden s then orig else ''hidden'')
           else pending_effects s = [ApplyOverflow]
             \<and> body_overflow s = (if rendered_isHidden s then ''hidden'' else orig)))"


section \<open>Properties of the direct-linked module\<close>

lemma directLinked_dispatch_all_snoc:
  "directLinked_dispatch_all state (as @ [a]) = directLinked_reduce (directLinked_dispatch_all state as) a"
  by (induction as arbitrary: state) simp_all

lemma directLinked_reduce_flag:
  "directLinkedGroupFetchFailed (directLinked_reduce state a) =
     (case a of UPDATE_DIRECT_LINKED_GROUP_FETCH_FAILED b \<Rightarrow> b
              | CLEAR_SELECTION \<Rightarrow> False
              | _ \<Rightarrow> directLinkedGroupFetchFailed state)"
  by (cases a) (simp_all add: directLinked_reduce_def directLinked_merge_def directLinked_no_change_def)

lemma snoc_split:
  "as @ [a] = pre @ x # post \<longleftrightarrow>
     (post = [] \<and> as = pre \<and> a = x) \<or> (\<exists>post'. post = post' @ [a] \<and> as = pre @ x # post')"
  by (cases post rule: rev_cases) auto

lemma last_occurrence_snoc:
  "(\<exists>pre post. as @ [a] = pre @ x # post \<and> (\<forall>b \<in> set post. Q b))
     \<longleftrightarrow> a = x \<or> ((\<exists>pre post. as = pre @ x # post \<and> (\<forall>b \<in> set post. Q b)) \<and> Q a)"
  (is "?L \<longleftrightarrow> ?R")
proof
  assume ?L
  then obtain pre post where eq: "as @ [a] = pre @ x # post" and ok: "\<forall>b \<in> set post. Q b"
    by blast
  from eq consider "post = []" "as = pre" "a = x"
    | post' where "post = post' @ [a]" "as = pre @ x # post'"
    unfolding snoc_split by blast
  then show ?R
  proof cases
    case 1
    then show ?thesis by simp
  next
    case 2
    with ok have "Q a" and "\<forall>b \<in> set post'. Q b" by simp_all
    with 2 show ?thesis by blast
  qed
next
  assume ?R
  then consider "a = x" | pre post where "as = pre @ x # post" "\<forall>b \<in> set post. Q b" "Q a"
    by blast
  then show ?L
  proof cases
    case 1
    then have "as @ [a] = as @ x # []" by simp
    moreover have "\<forall>b \<in> set []. Q b" by simp
    ultimately show ?thesis by blast
  next
    case 2
    then have "as @ [a] = pre @ x # (post @ [a])" and "\<forall>b \<in> set (post @ [a]). Q b"
      by simp_all
    then show ?thesis by blast
  qed
qed

lemma flag_trace:
  "directLinkedGroupFetchFailed (directLinked_dispatch_all state as) \<longleftrightarrow>
     (\<exists>pre post. as = pre @ setDirectLinkedGroupFetchFailed # post \<and>
        (\<forall>a \<in> set post. a \<noteq> clearDirectLinkedGroupFetchFailed \<and> a \<noteq> CLEAR_SELECTION))
     \<or> (directLinkedGroupFetchFailed state \<and>
        (\<forall>a \<in> set as. a \<noteq> clearDirectLinkedGroupFetchFailed \<and> a \<noteq> CLEAR_SELECTION))"
proof (induction as rule: rev_induct)
  case Nil
  then show ?case by simp
next
  case (snoc a as)
  have step: "directLinkedGroupFetchFailed (directLinked_dispatch_all state (as @ [a])) \<longleftrightarrow>
      a = setDirectLinkedGroupFetchFailed \<or>
      (directLinkedGroupFetchFailed (directLinked_dispatch_all state as) \<and>
       a \<noteq> clearDirectLinkedGroupFetchFailed \<and> a \<noteq> CLEAR_SELECTION)"
  proof (cases a)
    case (UPDATE_DIRECT_LINKED_GROUP_FETCH_FAILED b)
    then show ?thesis
      by (cases b)
        (simp_all add: directLinked_dispatch_all_snoc directLinked_reduce_flag
          setDirectLinkedGroupFetchFailed_def clearDirectLinkedGroupFetchFailed_def)
  qed (simp_all add: directLinked_dispatch_all_snoc directLinked_reduce_flag
          setDirectLinkedGroupFetchFailed_def clearDirectLinkedGroupFetchFailed_def)
  show ?case
    unfolding step last_occurrence_snoc snoc.IH
    by auto
qed

text \<open>
  Claim C3.  The flag \<open>directLinkedGroupFetchFailed\<close> is false in the initial state.
  From every state, \<open>setDirectLinkedGroupFetchFailed\<close> sets it to true, and both
  \<open>clearDirectLinkedGroupFetchFailed\<close> and \<open>CLEAR_SELECTION\<close> set it to false.
  After any sequence of actions dispatched from the initial state, the selector returns
  true exactly when the sequence holds a \<open>setDirectLinkedGroupFetchFailed\<close> with
  neither clearing action after it.
\<close>

theorem C3_fetch_failed_flag:
  "directLinkedGroupFetchFailed_sel (directLinked_initialState settings) = False
   \<and> directLinkedGroupFetchFailed_sel (directLinked_reduce state setDirectLinkedGroupFetchFailed) = True
   \<and> directLinkedGroupFetchFailed_sel (directLinked_reduce state clearDirectLinkedGroupFetchFailed) = False
   \<and> directLinkedGroupFetchFailed_sel (directLinked_reduce state CLEAR_SELECTION) = False
   \<and> (directLinkedGroupFetchFailed_sel (directLinked_dispatch_all (directLinked_initialState settings) as)
        \<longleftrightarrow> (\<exists>pre post. as = pre @ setDirectLinkedGroupFetchFailed # post \<and>
              (\<forall>a \<in> set post. a \<noteq> clearDirectLinkedGroupFetchFailed \<and> a \<noteq> CLEAR_SELECTION)))"
proof -
  have init: "directLinkedGroupFetchFailed (directLinked_initialState settings) = False"
    by (simp add: directLinked_initialState_def)
  show ?thesis
    unfolding directLinkedGroupFetchFailed_sel_def
    using flag_trace [of "directLinked_initialState settings" as] init
    by (simp add: directLinked_reduce_flag setDirectLinkedGroupFetchFailed_def
        clearDirectLinkedGroupFetchFailed_def)
qed

theorem C3_fetch_failed_flag_witness:
  "directLinkedGroupFetchFailed_sel
     (directLinked_dispatch_all
        (directLinked_initialState \<lparr> group = Present ''g1'', annotations = Undefined, authDomain = Null \<rparr>)
        [setDirectLinkedGroupFetchFailed, CLEAR_SELECTION, setDirectLinkedGroupFetchFailed,
         setDirectLinkedGroupId (Some ''g2'')])"
proof -
  let ?as = "[setDirectLinkedGroupFetchFailed, CLEAR_SELECTION, setDirectLinkedGroupFetchFailed,
         setDirectLinkedGroupId (Some ''g2'')]"
  have eq: "?as = [setDirectLinkedGroupFetchFailed, CLEAR_SELECTION]
      @ setDirectLinkedGroupFetchFailed # [setDirectLinkedGroupId (Some ''g2'')]"
    by simp
  have ok: "\<forall>a \<in> set [setDirectLinkedGroupId (Some ''g2'')].
      a \<noteq> clearDirectLinkedGroupFetchFailed \<and> a \<noteq> CLEAR_SELECTION"
    by (simp add: setDirectLinkedGroupId_def clearDirectLinkedGroupFetchFailed_def)
  from eq ok have "\<exists>pre post. ?as = pre @ setDirectLinkedGroupFetchFailed # post \<and>
      (\<forall>a \<in> set post. a \<noteq> clearDirectLinkedGroupFetchFailed \<and> a \<noteq> CLEAR_SELECTION)"
    by blast
  then show ?thesis
    using C3_fetch_failed_flag
      [of "\<lparr> group = Present ''g1'', annotations = Undefined, authDomain = Null \<rparr>" undefined ?as]
    by blast
qed

text \<open>
  Claim C6.  For every settings object, the initial \<open>directLinkedGroupId\<close> is
  \<open>settings.group\<close> when that is a non-empty string and \<^verbatim>\<open>null\<close> otherwise, and the
  initial \<open>directLinkedAnnotationId\<close> is \<open>settings.annotations\<close> when that is a
  non-empty string and \<^verbatim>\<open>null\<close> otherwise.
\<close>

theorem C6_initial_ids:
  "(\<forall>g. group settings = Present g \<and> g \<noteq> [] \<longrightarrow>
        directLinkedGroupId (directLinked_initialState settings) = Some g)
   \<and> ((\<nexists>g. group settings = Present g \<and> g \<noteq> []) \<longrightarrow>
        directLinkedGroupId (directLinked_initialState settings) = None)
   \<and> (\<forall>a. annotations settings = Present a \<and> a \<noteq> [] \<longrightarrow>
        directLinkedAnnotationId (directLinked_initialState settings) = Some a)
   \<and> ((\<nexists>a. annotations settings = Present a \<and> a \<noteq> []) \<longrightarrow>
        directLinkedAnnotationId (directLinked_initialState settings) = None)"
  by (cases "group settings"; cases "annotations settings")
    (simp_all add: directLinked_initialState_def or_null_def)

theorem C6_initial_ids_witness:
  "directLinkedGroupId (directLinked_initialState
      \<lparr> group = Present ''xyz'', annotations = Present [], authDomain = Undefined \<rparr>) = Some ''xyz''
   \<and> directLinkedAnnotationId (directLinked_initialState
      \<lparr> group = Present ''xyz'', annotations = Present [], authDomain = Undefined \<rparr>) = None"
  using C6_initial_ids [of "\<lparr> group = Present ''xyz'', annotations = Present [], authDomain = Undefined \<rparr>"]
  by simp

text \<open>
  Claim C8.  From every state, \<open>clearDirectLinkedIds\<close> sets both IDs to \<^verbatim>\<open>null\<close>
  and leaves \<open>directLinkedGroupFetchFailed\<close> as it was; \<open>CLEAR_SELECTION\<close> sets both
  IDs to \<^verbatim>\<open>null\<close> and also resets the flag to false.
\<close>

theorem C8_clear_ids_frame:
  "directLinkedAnnotationId (directLinked_reduce state clearDirectLinkedIds) = None
   \<and> directLinkedGroupId (directLinked_reduce state clearDirectLinkedIds) = None
   \<and> directLinkedGroupFetchFailed (directLinked_reduce state clearDirectLinkedIds)
       = directLinkedGroupFetchFailed state
   \<and> directLinkedAnnotationId (directLinked_reduce state CLEAR_SELECTION) = None
   \<and> directLinkedGroupId (directLinked_reduce state CLEAR_SELECTION) = None
   \<and> directLinkedGroupFetchFailed (directLinked_reduce state CLEAR_SELECTION) = False"
  by (simp add: directLinked_reduce_def directLinked_merge_def directLinked_no_change_def
      clearDirectLinkedIds_def)

text \<open>
  Claim C9.  From every state and for every ID \<open>v\<close>, \<open>setDirectLinkedGroupId v\<close>
  sets \<open>directLinkedGroupId\<close> to \<open>v\<close> and leaves the annotation ID and the flag
  unchanged; \<open>setDirectLinkedAnnotationId v\<close> sets \<open>directLinkedAnnotationId\<close> to
  \<open>v\<close> and leaves the group ID and the flag unchanged.
\<close>

theorem C9_set_id_frame:
  "directLinkedGroupId_sel (directLinked_reduce state (setDirectLinkedGroupId v)) = v
   \<and> directLinkedAnnotationId_sel (directLinked_reduce state (setDirectLinkedGroupId v))
       = directLinkedAnnotationId_sel state
   \<and> directLinkedGroupFetchFailed_sel (directLinked_reduce state (setDirectLinkedGroupId v))
       = directLinkedGroupFetchFailed_sel state
   \<and> directLinkedAnnotationId_sel (directLinked_reduce state (setDirectLinkedAnnotationId v)) = v
   \<and> directLinkedGroupId_sel (directLinked_reduce state (setDirectLinkedAnnotationId v))
       = directLinkedGroupId_sel state
   \<and> directLinkedGroupFetchFailed_sel (directLinked_reduce state (setDirectLinkedAnnotationId v))
       = directLinkedGroupFetchFailed_sel state"
  by (simp add: directLinked_reduce_def directLinked_merge_def directLinked_no_change_def
      setDirectLinkedGroupId_def setDirectLinkedAnnotationId_def
      directLinkedGroupId_sel_def directLinkedAnnotationId_sel_def
      directLinkedGroupFetchFailed_sel_def)


section \<open>Properties of the session module\<close>

lemma initialProfile_is_first: "initialProfile = 0" "module_heap = [initialProfile_object]"
  by (simp_all add: initialProfile_def module_heap_def allocate_def)

lemma session_reduce_updateProfile:
  "session_reduce heap state (updateProfile p) =
     (\<lparr> defaultAuthority = defaultAuthority state, profile = length heap \<rparr>, heap @ [deref heap p])"
  by (simp add: session_reduce_def session_merge_def updateProfile_def allocate_def)

text \<open>
  Claim C2.  On every heap that holds the \<open>initialProfile\<close> object, from every session
  state and for every profile reference \<open>p\<close> (the reference to \<open>initialProfile\<close>
  included), \<open>hasFetchedProfile\<close> is true after \<open>UPDATE_PROFILE\<close> with \<open>p\<close>: the
  reducer stores a newly allocated copy.  On the initial state it is false.
\<close>

theorem C2_has_fetched_profile:
  assumes "initialProfile < length heap"
  shows "hasFetchedProfile (fst (session_reduce heap state (updateProfile p)))
         \<and> \<not> hasFetchedProfile (session_initialState settings)"
  using assms
  by (simp add: session_reduce_updateProfile hasFetchedProfile_def session_initialState_def)

theorem C2_has_fetched_profile_witness:
  "initialProfile < length module_heap
   \<and> hasFetchedProfile
       (fst (session_reduce module_heap (session_initialState Undefined) (updateProfile initialProfile)))
   \<and> \<not> hasFetchedProfile (session_initialState Undefined)"
proof -
  have h: "initialProfile < length module_heap"
    by (simp add: initialProfile_is_first)
  from C2_has_fetched_profile [OF h, of "session_initialState Undefined" initialProfile Undefined] h
  show ?thesis by simp
qed

text \<open>
  Claim C4.  For every settings value, the initial \<open>defaultAuthority\<close> is
  \<open>settings.authDomain\<close> when the settings object and that property are present, and
  the empty string otherwise; the profile of the initial state is the dummy profile
  (no features, no preferences, \<^verbatim>\<open>null\<close> user ID), and \<open>isLoggedIn\<close> is false.
\<close>

theorem C4_initial_defaults:
  "(\<forall>s a. settings = Present s \<and> authDomain s = Present a \<longrightarrow>
       defaultAuthority (session_initialState settings) = a)
   \<and> ((\<nexists>s a. settings = Present s \<and> authDomain s = Present a) \<longrightarrow>
       defaultAuthority (session_initialState settings) = [])
   \<and> deref module_heap (profile_sel (session_initialState settings))
       = \<lparr> features = Map.empty, preferences = Map.empty, userid = None \<rparr>
   \<and> \<not> isLoggedIn module_heap (session_initialState settings)"
proof -
  have auth: "defaultAuthority (session_initialState settings) =
      (case settings of Present s \<Rightarrow> (case authDomain s of Present a \<Rightarrow> a | _ \<Rightarrow> []) | _ \<Rightarrow> [])"
    by (simp add: session_initialState_def nullish_or_def split: optional.splits)
  have prof: "deref module_heap (profile (session_initialState settings)) = initialProfile_object"
    by (simp add: session_initialState_def initialProfile_is_first deref_def)
  show ?thesis
    unfolding auth
    by (simp add: prof profile_sel_def isLoggedIn_def initialProfile_object_def split: optional.splits)
qed

theorem C4_initial_defaults_witness:
  "defaultAuthority (session_initialState
      (Present \<lparr> group = Undefined, annotations = Undefined, authDomain = Present ''hypothes.is'' \<rparr>))
     = ''hypothes.is''
   \<and> defaultAuthority (session_initialState Undefined) = []
   \<and> \<not> isLoggedIn module_heap (session_initialState Undefined)"
  using C4_initial_defaults
      [of "Present \<lparr> group = Undefined, annotations = Undefined, authDomain = Present ''hypothes.is'' \<rparr>"]
    C4_initial_defaults [of Undefined]
  by simp





text \<open>
  Claim C7.  From every session state and for every profile \<open>p\<close> on the heap, after
  \<open>updateProfile p\<close> the profile selector returns a profile equal, field by field, to
  \<open>p\<close> (which itself is unchanged), and \<open>defaultAuthority\<close> is unchanged.
\<close>

theorem C7_profile_round_trip:
  assumes "p < length heap"
  shows "deref (snd (session_reduce heap state (updateProfile p)))
           (profile_sel (fst (session_reduce heap state (updateProfile p))))
         = deref heap p
     \<and> deref (snd (session_reduce heap state (updateProfile p))) p = deref heap p
     \<and> defaultAuthority (fst (session_reduce heap state (updateProfile p)))
         = defaultAuthority state"
  using assms
  by (simp add: session_reduce_updateProfile profile_sel_def deref_def nth_append)

theorem C7_profile_round_trip_witness:
  "(0::nat) < length [\<lparr> features = [''f'' \<mapsto> JBool True], preferences = Map.empty, userid = Some ''acct:a@b'' \<rparr>]
   \<and> deref (snd (session_reduce
        [\<lparr> features = [''f'' \<mapsto> JBool True], preferences = Map.empty, userid = Some ''acct:a@b'' \<rparr>]
        \<lparr> defaultAuthority = ''example.org'', profile = 0 \<rparr> (updateProfile 0)))
      (profile_sel (fst (session_reduce
        [\<lparr> features = [''f'' \<mapsto> JBool True], preferences = Map.empty, userid = Some ''acct:a@b'' \<rparr>]
        \<lparr> defaultAuthority = ''example.org'', profile = 0 \<rparr> (updateProfile 0))))
     = \<lparr> features = [''f'' \<mapsto> JBool True], preferences = Map.empty, userid = Some ''acct:a@b'' \<rparr>"
proof -
  let ?h = "[\<lparr> features = [''f'' \<mapsto> JBool True], preferences = Map.empty, userid = Some ''acct:a@b'' \<rparr>]"
  have h: "(0::nat) < length ?h" by simp
  from C7_profile_round_trip [OF h, of "\<lparr> defaultAuthority = ''example.org'', profile = 0 \<rparr>"] h
  show ?thesis by (simp add: deref_def)
qed


section \<open>Properties of the notebook modal\<close>

lemma modal_inv_first_render: "modal_inv orig (first_render orig)"
  by (simp add: modal_inv_def first_render_def)

lemma modal_inv_open:
  "modal_inv orig s \<Longrightarrow> modal_inv orig (NotebookModal_step s OpenNotebookEvent)"
  by (auto simp: modal_inv_def on_openNotebook_def setIsHidden_def split: if_splits)

lemma modal_inv_close:
  "modal_inv orig s \<Longrightarrow> modal_inv orig (NotebookModal_step s CloseButtonClick)"
  by (auto simp: modal_inv_def onClose_def setIsHidden_def Let_def split: if_splits)

lemma modal_inv_flush:
  "modal_inv orig s \<Longrightarrow> mounted s \<Longrightarrow> modal_inv orig (flush_effects s)"
  by (auto simp: modal_inv_def flush_effects_def effect_store_overflow_def
      effect_apply_overflow_def effect_subscribe_def split: if_splits)

lemma flush_effects_frame:
  "mounted (flush_effects s) = mounted s"
  "isHidden (flush_effects s) = isHidden s"
  "rendered_isHidden (flush_effects s) = rendered_isHidden s"
  "pending_effects (flush_effects s) = []"
proof -
  have "mounted (fold run_effect es s) = mounted s
      \<and> isHidden (fold run_effect es s) = isHidden s
      \<and> rendered_isHidden (fold run_effect es s) = rendered_isHidden s" for es
  proof (induction es arbitrary: s)
    case Nil
    show ?case by simp
  next
    case (Cons e es)
    show ?case
      by (cases e)
        (simp_all add: Cons.IH effect_store_overflow_def effect_apply_overflow_def
          effect_subscribe_def)
  qed
  then show "mounted (flush_effects s) = mounted s"
    "isHidden (flush_effects s) = isHidden s"
    "rendered_isHidden (flush_effects s) = rendered_isHidden s"
    "pending_effects (flush_effects s) = []"
    by (simp_all add: flush_effects_def)
qed

lemma modal_inv_rerender:
  assumes "modal_inv orig s" "mounted s"
  shows "modal_inv orig (rerender s)"
proof -
  let ?s1 = "flush_effects s"
  have inv1: "modal_inv orig ?s1" and m1: "mounted ?s1" and p1: "pending_effects ?s1 = []"
    using assms by (simp_all add: modal_inv_flush flush_effects_frame)
  then show ?thesis
    by (auto simp: modal_inv_def rerender_def Let_def split: if_splits)
qed

lemma modal_inv_destroy:
  "modal_inv orig s \<Longrightarrow> mounted s \<Longrightarrow> modal_inv orig (destroy s)"
  by (auto simp: modal_inv_def destroy_def cleanup_store_overflow_def cleanup_subscribe_def
      split: if_splits)

lemma modal_inv_step: "modal_inv orig s \<Longrightarrow> modal_inv orig (NotebookModal_step s e)"
proof (cases e)
  case OpenNotebookEvent
  assume "modal_inv orig s"
  with OpenNotebookEvent show ?thesis by (simp only: modal_inv_open)
next
  case CloseButtonClick
  assume "modal_inv orig s"
  with CloseButtonClick show ?thesis by (simp only: modal_inv_close)
next
  case Render
  assume "modal_inv orig s"
  with Render show ?thesis by (simp add: modal_inv_rerender)
next
  case RunEffects
  assume "modal_inv orig s"
  with RunEffects show ?thesis by (simp add: modal_inv_flush)
next
  case Destroy
  assume "modal_inv orig s"
  with Destroy show ?thesis by (simp add: modal_inv_destroy)
qed

lemma modal_inv_run: "modal_inv orig s \<Longrightarrow> modal_inv orig (NotebookModal_run s es)"
  by (induction es arbitrary: s) (simp_all add: modal_inv_step)

lemma open_then_render_visible:
  assumes "modal_inv orig s" "mounted s" "subscribed s"
  shows "visible (NotebookModal_step (NotebookModal_step s OpenNotebookEvent) Render)"
proof -
  let ?s1 = "NotebookModal_step s OpenNotebookEvent"
  have inv1: "modal_inv orig ?s1" using assms(1) by (rule modal_inv_open)
  have m1: "mounted ?s1" and h1: "\<not> isHidden ?s1"
    using assms by (auto simp: on_openNotebook_def setIsHidden_def)
  from inv1 m1 h1 have "render_queued ?s1 \<or> \<not> rendered_isHidden ?s1"
    by (auto simp: modal_inv_def split: if_splits)
  with m1 h1 show ?thesis
    by (auto simp: visible_def rerender_def Let_def flush_effects_frame)
qed

lemma close_then_render_hidden:
  assumes "modal_inv orig s" "mounted s"
  shows "\<not> visible (NotebookModal_step (NotebookModal_step s CloseButtonClick) Render)"
proof -
  let ?s1 = "NotebookModal_step s CloseButtonClick"
  have inv1: "modal_inv orig ?s1" using assms(1) by (rule modal_inv_close)
  have m1: "mounted ?s1" and h1: "isHidden ?s1"
    using assms by (auto simp: onClose_def setIsHidden_def Let_def)
  from inv1 m1 h1 have "render_queued ?s1 \<or> rendered_isHidden ?s1"
    by (auto simp: modal_inv_def split: if_splits)
  with m1 h1 show ?thesis
    by (auto simp: visible_def rerender_def Let_def flush_effects_frame)
qed

lemma close_publishes:
  "mounted s \<Longrightarrow> emitterRef s \<Longrightarrow>
     published (NotebookModal_step s CloseButtonClick) = published s @ [''closeNotebook'']"
  by (simp add: onClose_def setIsHidden_def Let_def)

lemma effects_run_subscribed:
  assumes "modal_inv orig s" "mounted s"
  shows "pending_effects (NotebookModal_step s RunEffects) = []
     \<and> subscribed (NotebookModal_step s RunEffects)
     \<and> emitterRef (NotebookModal_step s RunEffects)"
proof -
  have "modal_inv orig (flush_effects s)" "mounted (flush_effects s)"
    "pending_effects (flush_effects s) = []"
    using assms by (simp_all add: modal_inv_flush flush_effects_frame)
  then show ?thesis
    using assms(2) by (auto simp: modal_inv_def split: if_splits)
qed

lemma settled_overflow:
  assumes "modal_inv orig s"
  shows "(visible s \<and> pending_effects s = [] \<longrightarrow> body_overflow s = ''hidden'')
    \<and> (mounted s \<and> \<not> visible s \<and> pending_effects s = [] \<longrightarrow> body_overflow s = orig)
    \<and> (\<not> mounted s \<longrightarrow> body_overflow s = orig)
    \<and> (mounted s \<and> pending_effects s = [] \<longrightarrow> subscribed s \<and> emitterRef s)"
  using assms by (auto simp: modal_inv_def visible_def split: if_splits)

text \<open>
  Four reachable states against the claim as stated.  On a page whose body overflow
  style is already \<^verbatim>\<open>'hidden'\<close>, the mounted modal with all effects run is hidden and
  the style is \<^verbatim>\<open>'hidden'\<close>.  After an \<^verbatim>\<open>'openNotebook'\<close> event and the re-render,
  the modal is visible while the style still has its original value, the effect not
  having run yet.  An \<^verbatim>\<open>'openNotebook'\<close> event that arrives before the effects of the
  first render have run is lost, and a press of the close button at that time publishes
  nothing.
\<close>

theorem C10_overflow_counterexample:
  "\<not> visible (NotebookModal_run (first_render ''hidden'') [RunEffects])
   \<and> pending_effects (NotebookModal_run (first_render ''hidden'') [RunEffects]) = []
   \<and> body_overflow (NotebookModal_run (first_render ''hidden'') [RunEffects]) = ''hidden''
   \<and> visible (NotebookModal_run (first_render ''auto'') [RunEffects, OpenNotebookEvent, Render])
   \<and> body_overflow (NotebookModal_run (first_render ''auto'') [RunEffects, OpenNotebookEvent, Render])
       = ''auto''
   \<and> \<not> visible (NotebookModal_run (first_render ''auto'') [OpenNotebookEvent, Render, RunEffects])
   \<and> published (NotebookModal_run (first_render ''auto'') [CloseButtonClick]) = []"
  by (simp add: first_render_def visible_def flush_effects_def rerender_def
      effect_store_overflow_def effect_apply_overflow_def effect_subscribe_def
      on_openNotebook_def onClose_def setIsHidden_def Let_def)

text \<open>
  Claim C10, amended.  The modal starts hidden.  Let \<open>s\<close> be any state reached from the
  first render by any sequence of events, renders and effect runs.
  \<^item> While the component is mounted, running the pending effects leaves none pending,
    and the component subscribed and holding its emitter; it is subscribed and holds
    its emitter in every mounted state without a pending effect.
  \<^item> Once the component is subscribed, an \<^verbatim>\<open>'openNotebook'\<close> event makes the modal
    visible at the next render.
  \<^item> Pressing the close button hides the modal at the next render, and publishes
    \<^verbatim>\<open>'closeNotebook'\<close> once the component holds its emitter.
  \<^item> In every mounted state without a pending effect, the body overflow style is
    \<^verbatim>\<open>'hidden'\<close> if the modal is visible and has its original value if the modal is
    hidden; once the component is destroyed it has its original value.  So, without a
    pending effect and with an original value other than \<^verbatim>\<open>'hidden'\<close>, the style is
    \<^verbatim>\<open>'hidden'\<close> exactly while the modal is visible.
\<close>

theorem C10_notebook_modal:
  assumes "s = NotebookModal_run (first_render orig) es"
  shows "\<not> visible (first_render orig)
    \<and> (mounted s \<longrightarrow>
          pending_effects (NotebookModal_step s RunEffects) = []
          \<and> subscribed (NotebookModal_step s RunEffects)
          \<and> emitterRef (NotebookModal_step s RunEffects))
    \<and> (mounted s \<and> pending_effects s = [] \<longrightarrow> subscribed s \<and> emitterRef s)
    \<and> (mounted s \<and> subscribed s \<longrightarrow>
          visible (NotebookModal_step (NotebookModal_step s OpenNotebookEvent) Render))
    \<and> (mounted s \<longrightarrow>
          \<not> visible (NotebookModal_step (NotebookModal_step s CloseButtonClick) Render))
    \<and> (mounted s \<and> emitterRef s \<longrightarrow>
          published (NotebookModal_step s CloseButtonClick) = published s @ [''closeNotebook''])
    \<and> (visible s \<and> pending_effects s = [] \<longrightarrow> body_overflow s = ''hidden'')
    \<and> (mounted s \<and> \<not> visible s \<and> pending_effects s = [] \<longrightarrow> body_overflow s = orig)
    \<and> (\<not> mounted s \<longrightarrow> body_overflow s = orig)
    \<and> (orig \<noteq> ''hidden'' \<and> (pending_effects s = [] \<or> \<not> mounted s) \<longrightarrow>
          (body_overflow s = ''hidden'' \<longleftrightarrow> visible s))"
proof -
  have inv: "modal_inv orig s"
    unfolding assms by (rule modal_inv_run [OF modal_inv_first_render])
  have start: "\<not> visible (first_render orig)"
    by (simp add: first_render_def visible_def)
  note settled = settled_overflow [OF inv]
  have iff: "orig \<noteq> ''hidden'' \<and> (pending_effects s = [] \<or> \<not> mounted s) \<longrightarrow>
          (body_overflow s = ''hidden'' \<longleftrightarrow> visible s)"
    using settled by (auto simp: visible_def)
  from start effects_run_subscribed [OF inv] open_then_render_visible [OF inv]
    close_then_render_hidden [OF inv] close_publishes [of s] settled iff
  show ?thesis by blast
qed

theorem C10_notebook_modal_witness:
  "visible (NotebookModal_run (first_render ''auto'') [RunEffects, OpenNotebookEvent, Render, RunEffects])
   \<and> body_overflow
       (NotebookModal_run (first_render ''auto'') [RunEffects, OpenNotebookEvent, Render, RunEffects])
       = ''hidden''
   \<and> body_overflow
       (NotebookModal_run (first_render ''auto'')
          [RunEffects, OpenNotebookEvent, Render, RunEffects, CloseButtonClick, Render, RunEffects])
       = ''auto''
   \<and> body_overflow
       (NotebookModal_run (first_render ''auto'')
          [RunEffects, OpenNotebookEvent, Render, RunEffects, Destroy])
       = ''auto''"
proof -
  let ?opened = "NotebookModal_run (first_render ''auto'')
      [RunEffects, OpenNotebookEvent, Render, RunEffects]"
  let ?closed = "NotebookModal_run (first_render ''auto'')
      [RunEffects, OpenNotebookEvent, Render, RunEffects, CloseButtonClick, Render, RunEffects]"
  let ?gone = "NotebookModal_run (first_render ''auto'')
      [RunEffects, OpenNotebookEvent, Render, RunEffects, Destroy]"
  note defs = first_render_def visible_def flush_effects_def rerender_def destroy_def
      effect_store_overflow_def effect_apply_overflow_def effect_subscribe_def
      cleanup_store_overflow_def cleanup_subscribe_def
      on_openNotebook_def onClose_def setIsHidden_def Let_def
  have opened: "visible ?opened" "pending_effects ?opened = []"
    by (simp_all add: defs)
  have closed: "mounted ?closed" "\<not> visible ?closed" "pending_effects ?closed = []"
    by (simp_all add: defs)
  have gone: "\<not> mounted ?gone"
    by (simp add: defs)
  from C10_notebook_modal [OF refl, of "''auto''" "[RunEffects, OpenNotebookEvent, Render, RunEffects]"]
    opened
  have a: "body_overflow ?opened = ''hidden''" by blast
  from C10_notebook_modal [OF refl, of "''auto''"
      "[RunEffects, OpenNotebookEvent, Render, RunEffects, CloseButtonClick, Render, RunEffects]"]
    closed
  have b: "body_overflow ?closed = ''auto''" by blast
  from C10_notebook_modal [OF refl, of "''auto''"
      "[RunEffects, OpenNotebookEvent, Render, RunEffects, Destroy]"]
    gone
  have c: "body_overflow ?gone = ''auto''" by blast
  from opened(1) a b c show ?thesis by blast
qed

end
